theory Spec2Isabelle
  imports Main "HOL-Library.Word"
begin

unbundle bit_operations_syntax

section \<open>The virtio-input backend of the ACRN device model\<close>

text \<open>
  A shallow embedding of \<^verbatim>\<open>devicemodel/hw/pci/virtio/virtio_input.c\<close>. The C structs
  are records, pointers that may be NULL are options, and the host platform (libc, the
  event loop, the virtio framework) is an explicit environment that says which calls
  succeed. Every resource the file acquires or releases is logged in a trace, so that
  the order of the teardown can be stated.
\<close>

subsection \<open>Constants\<close>

definition VIRTIO_INPUT_EVENT_QUEUE :: nat where
  "VIRTIO_INPUT_EVENT_QUEUE = 0"

definition VIRTIO_INPUT_STATUS_QUEUE :: nat where
  "VIRTIO_INPUT_STATUS_QUEUE = 1"

definition VIRTIO_INPUT_MAXQ :: nat where
  "VIRTIO_INPUT_MAXQ = 2"

definition VIRTIO_INPUT_RINGSZ :: "16 word" where
  "VIRTIO_INPUT_RINGSZ = 64"

definition VIRTIO_INPUT_PACKET_SIZE :: "32 word" where
  "VIRTIO_INPUT_PACKET_SIZE = 10"

text \<open>
  Modelled from the spec: the macro \<^verbatim>\<open>VIRTIO_F_VERSION_1\<close> comes from virtio.h, which is
  not among the sources. The spec calls it the version-marker bit; the virtio standard
  makes it feature bit 32.
\<close>

definition VIRTIO_F_VERSION_1 :: "64 word" where
  "VIRTIO_F_VERSION_1 = push_bit 32 1"

definition VIRTIO_INPUT_S_HOSTCAPS :: "64 word" where
  "VIRTIO_INPUT_S_HOSTCAPS = VIRTIO_F_VERSION_1"

text \<open>The selector values of \<^verbatim>\<open>enum virtio_input_config_select\<close>.\<close>

definition VIRTIO_INPUT_CFG_UNSET :: "8 word" where
  "VIRTIO_INPUT_CFG_UNSET = 0x00"

definition VIRTIO_INPUT_CFG_ID_NAME :: "8 word" where
  "VIRTIO_INPUT_CFG_ID_NAME = 0x01"

definition VIRTIO_INPUT_CFG_ID_SERIAL :: "8 word" where
  "VIRTIO_INPUT_CFG_ID_SERIAL = 0x02"

definition VIRTIO_INPUT_CFG_ID_DEVIDS :: "8 word" where
  "VIRTIO_INPUT_CFG_ID_DEVIDS = 0x03"

definition VIRTIO_INPUT_CFG_PROP_BITS :: "8 word" where
  "VIRTIO_INPUT_CFG_PROP_BITS = 0x10"

definition VIRTIO_INPUT_CFG_EV_BITS :: "8 word" where
  "VIRTIO_INPUT_CFG_EV_BITS = 0x11"

definition VIRTIO_INPUT_CFG_ABS_INFO :: "8 word" where
  "VIRTIO_INPUT_CFG_ABS_INFO = 0x12"

subsection \<open>Data model\<close>

text \<open>
  \<^verbatim>\<open>struct virtio_input_event\<close>. The C fields are type, code and value; they carry the
  prefix \<open>ev_\<close> here.
\<close>

record virtio_input_event =
  ev_type :: "16 word"
  ev_code :: "16 word"
  ev_value :: "32 word"

text \<open>
  \<^verbatim>\<open>struct virtio_input_config\<close>: select, subsel, size, five reserved bytes and the
  128-byte union, kept as its bytes. Fields carry the prefix \<open>cfg_\<close>.
\<close>

record virtio_input_config =
  cfg_select :: "8 word"
  cfg_subsel :: "8 word"
  cfg_size :: "8 word"
  cfg_reserved :: "8 word list"
  cfg_u :: "8 word list"

text \<open>
  \<^verbatim>\<open>struct virtio_input_event_elem\<close>: an event, the guest buffer it goes to (a
  \<^verbatim>\<open>struct iovec\<close>: base address and length) and the descriptor index.
\<close>

record virtio_input_event_elem =
  event :: virtio_input_event
  iov :: "nat \<times> nat"
  idx :: "16 word"

text \<open>The two notify handlers a queue can point to (C function pointers).\<close>

datatype notify_handler = Notify_event_vq | Notify_status_vq

text \<open>
  Modelled from the spec: \<^verbatim>\<open>struct virtio_vq_info\<close> is declared in virtio.h, which is not
  among the sources. The file sets its fields qsize and notify. The three fields
  \<open>vq_avail\<close> (descriptors the guest has posted and the backend has not consumed),
  \<open>vq_used\<close> (event records written into consumed descriptors) and \<open>vq_intr\<close>
  (guest notifications raised) stand for the shared ring of the spec's data model.
\<close>

record virtio_vq_info =
  qsize :: "16 word"
  notify :: "notify_handler option"
  vq_avail :: nat
  vq_used :: "virtio_input_event list"
  vq_intr :: nat

text \<open>
  Modelled from the spec: \<^verbatim>\<open>struct virtio_base\<close> belongs to the virtio framework. The
  file only links it (\<^verbatim>\<open>virtio_linkup\<close>) and stores the address of the device mutex
  in it.
\<close>

record virtio_base =
  linked :: bool
  base_mtx :: bool

text \<open>The token \<^verbatim>\<open>mevent_add\<close> returns: the registration of a descriptor.\<close>

datatype mevent = Mevent int

text \<open>
  \<^verbatim>\<open>struct virtio_input\<close>, the per-device struct. \<open>mtx\<close> says whether the mutex has
  been initialised; the strings, the registration and the staging buffer are pointers,
  NULL being \<open>None\<close>.
\<close>

record virtio_input =
  base :: virtio_base
  queues :: "virtio_vq_info list"
  mtx :: bool
  mevp :: "mevent option"
  features :: "64 word"
  cfg :: virtio_input_config
  evdev :: "string option"
  serial :: "string option"
  fd :: int
  ready :: bool
  event_queue :: "virtio_input_event_elem list option"
  event_qsize :: "32 word"
  event_qindex :: "32 word"

text \<open>What \<^verbatim>\<open>calloc\<close> returns: every byte zero.\<close>

definition zero_event :: virtio_input_event where
  "zero_event = \<lparr>ev_type = 0, ev_code = 0, ev_value = 0\<rparr>"

definition zero_event_elem :: virtio_input_event_elem where
  "zero_event_elem = \<lparr>event = zero_event, iov = (0, 0), idx = 0\<rparr>"

definition zero_vq_info :: virtio_vq_info where
  "zero_vq_info = \<lparr>qsize = 0, notify = None, vq_avail = 0, vq_used = [], vq_intr = 0\<rparr>"

definition zero_config :: virtio_input_config where
  "zero_config =
    \<lparr>cfg_select = 0, cfg_subsel = 0, cfg_size = 0,
     cfg_reserved = replicate 5 0, cfg_u = replicate 128 0\<rparr>"

definition calloc_virtio_input :: virtio_input where
  "calloc_virtio_input =
    \<lparr>base = \<lparr>linked = False, base_mtx = False\<rparr>,
     queues = replicate VIRTIO_INPUT_MAXQ zero_vq_info,
     mtx = False, mevp = None, features = 0, cfg = zero_config,
     evdev = None, serial = None, fd = 0, ready = False,
     event_queue = None, event_qsize = 0, event_qindex = 0\<rparr>"

subsection \<open>The virtio operations\<close>

text \<open>
  The handlers of \<^verbatim>\<open>virtio_input_ops\<close>. In the source each body is the comment
  \<^verbatim>\<open>/* to be implemented */\<close>; the two configuration handlers return 0. The device is
  passed in and returned, a handler that writes through \<^verbatim>\<open>retval\<close> returns the value
  behind it.
\<close>

definition virtio_input_reset :: "virtio_input \<Rightarrow> virtio_input" where
  "virtio_input_reset vdev = vdev"

definition virtio_input_neg_features :: "virtio_input \<Rightarrow> 64 word \<Rightarrow> virtio_input" where
  "virtio_input_neg_features vdev negotiated_features = vdev"

definition virtio_input_set_status :: "virtio_input \<Rightarrow> 64 word \<Rightarrow> virtio_input" where
  "virtio_input_set_status vdev status = vdev"

definition virtio_input_cfgread ::
    "virtio_input \<Rightarrow> int \<Rightarrow> int \<Rightarrow> 32 word \<Rightarrow> int \<times> virtio_input \<times> 32 word" where
  "virtio_input_cfgread vdev offset sz retval = (0, vdev, retval)"

definition virtio_input_cfgwrite ::
    "virtio_input \<Rightarrow> int \<Rightarrow> int \<Rightarrow> 32 word \<Rightarrow> int \<times> virtio_input" where
  "virtio_input_cfgwrite vdev offset sz val = (0, vdev)"

text \<open>
  The process around the device: the file-level flag \<^verbatim>\<open>virtio_input_debug\<close>, what has
  been printed, and the device. \<^verbatim>\<open>DPRINTF\<close> prints when the flag is not zero.
\<close>

record world =
  virtio_input_debug :: int
  console :: "string list"
  vdev_of :: virtio_input

definition DPRINTF :: "string \<Rightarrow> world \<Rightarrow> world" where
  "DPRINTF msg w =
    (if virtio_input_debug w \<noteq> 0 then w\<lparr>console := console w @ [msg]\<rparr> else w)"

text \<open>The queue handlers take the index of the queue within the device.\<close>

definition virtio_input_notify_event_vq :: "world \<Rightarrow> nat \<Rightarrow> world" where
  "virtio_input_notify_event_vq w vq =
    DPRINTF (''virtio_input_notify_event_vq'' @ [CHR 0x0A]) w"

definition virtio_input_notify_status_vq :: "world \<Rightarrow> nat \<Rightarrow> world" where
  "virtio_input_notify_status_vq w vq = w"

text \<open>
  The readiness callback registered with the event loop; \<^verbatim>\<open>enum ev_type\<close> is declared
  in mevent.h, and the file uses \<^verbatim>\<open>EVF_READ\<close> only.
\<close>

datatype ev_type = EVF_READ | EVF_WRITE

definition virtio_input_read_event :: "int \<Rightarrow> ev_type \<Rightarrow> virtio_input \<Rightarrow> virtio_input" where
  "virtio_input_read_event fdesc t arg = arg"

subsection \<open>Attach and detach\<close>

text \<open>The resources \<^verbatim>\<open>virtio_input_init\<close> acquires, and the trace of their life.\<close>

datatype resource =
  Device_struct | Path_string | Serial_string | Host_fd | Mutex | Staging_buffer
  | Event_registration

datatype call = Acquire resource | Release resource

fun acquired :: "call list \<Rightarrow> resource list" where
  "acquired [] = []"
| "acquired (Acquire r # cs) = r # acquired cs"
| "acquired (Release r # cs) = acquired cs"

fun released :: "call list \<Rightarrow> resource list" where
  "released [] = []"
| "released (Acquire r # cs) = released cs"
| "released (Release r # cs) = r # released cs"

text \<open>
  The device model's side of an attach: the device struct while it is allocated, and
  the trace.
\<close>

record dm_state =
  live :: "virtio_input option"
  calls :: "call list"

text \<open>
  The host platform as \<^verbatim>\<open>virtio_input_init\<close> sees it: which allocation succeeds, what
  \<^verbatim>\<open>open\<close> returns for a path, and the return codes of the other calls.
\<close>

record host_env =
  calloc_vi_ok :: bool
  strdup_evdev_ok :: bool
  strdup_serial_ok :: bool
  host_open :: "string \<Rightarrow> int"
  ioctl_version_rc :: int
  ioctl_grab_rc :: int
  mutex_init_rc :: int
  calloc_queue_ok :: bool
  mevent_add_ok :: bool
  virtio_interrupt_init_rc :: int
  virtio_set_modern_bar_rc :: int

text \<open>
  \<^verbatim>\<open>strsep(&opts, ",")\<close> of libc: NULL when the string pointer is NULL; otherwise the
  text before the first comma (the whole string when it has none), the pointer moving
  behind that comma, or to NULL when there is none.
\<close>

definition strsep_comma :: "string option \<Rightarrow> string option \<times> string option" where
  "strsep_comma stringp =
    (case stringp of
      None \<Rightarrow> (None, None)
    | Some s \<Rightarrow>
        (Some (takeWhile (\<lambda>c. c \<noteq> CHR '','') s),
         case dropWhile (\<lambda>c. c \<noteq> CHR '','') s of
           [] \<Rightarrow> None
         | _ # rest \<Rightarrow> Some rest))"

text \<open>
  The label \<^verbatim>\<open>fail:\<close> of \<^verbatim>\<open>virtio_input_init\<close>. The stores of NULL and -1 that follow
  each release go into the struct that the last line frees.
\<close>

definition init_fail :: "bool \<Rightarrow> virtio_input option \<Rightarrow> call list \<Rightarrow> int \<times> dm_state" where
  "init_fail mutex_initialized vi tr =
    (case vi of
      None \<Rightarrow> (- 1, \<lparr>live = None, calls = tr\<rparr>)
    | Some v \<Rightarrow>
        let tr = (if mutex_initialized then tr @ [Release Mutex] else tr);
            tr = (if event_queue v \<noteq> None then tr @ [Release Staging_buffer] else tr);
            tr = (if mevp v \<noteq> None then tr @ [Release Event_registration] else tr);
            tr = (if fd v > 0 then tr @ [Release Host_fd] else tr);
            tr = (if serial v \<noteq> None then tr @ [Release Serial_string] else tr);
            tr = (if evdev v \<noteq> None then tr @ [Release Path_string] else tr)
        in (- 1, \<lparr>live = None, calls = tr @ [Release Device_struct]\<rparr>))"

text \<open>
  \<^verbatim>\<open>virtio_input_init\<close>, statement by statement. The diagnostics it prints and the
  PCI identification registers it sets (in the PCI device, not in the device struct) are
  left out; \<^verbatim>\<open>fcntl\<close> and the mutex attribute calls have no effect on the control flow.
  The result is the return value and the state after the call.
\<close>

definition virtio_input_init :: "host_env \<Rightarrow> string option \<Rightarrow> int \<times> dm_state" where
  "virtio_input_init env opts0 =
    (if opts0 = None then (- 1, \<lparr>live = None, calls = []\<rparr>)
     else if \<not> calloc_vi_ok env then (- 1, \<lparr>live = None, calls = []\<rparr>)
     else
       let vi = calloc_virtio_input;
           tr = [Acquire Device_struct];
           (opt, opts) = strsep_comma opts0
       in case opt of
         None \<Rightarrow> init_fail False (Some vi) tr
       | Some path \<Rightarrow>
         if \<not> strdup_evdev_ok env then init_fail False (Some vi) tr
         else
           let vi = vi\<lparr>evdev := Some path\<rparr>;
               tr = tr @ [Acquire Path_string]
           in
           if opts \<noteq> None \<and> \<not> strdup_serial_ok env then init_fail False (Some vi) tr
           else
             let (vi, tr) =
                   (if opts \<noteq> None
                    then (vi\<lparr>serial := opts\<rparr>, tr @ [Acquire Serial_string])
                    else (vi, tr));
                 vi = vi\<lparr>fd := host_open env path\<rparr>
             in
             if fd vi < 0 then init_fail False (Some vi) tr
             else
               let tr = tr @ [Acquire Host_fd] in
               if ioctl_version_rc env < 0 then init_fail False (Some vi) tr
               else if ioctl_grab_rc env < 0 then init_fail False (Some vi) tr
               else
                 let mutex_initialized = (mutex_init_rc env = 0);
                     (vi, tr) =
                       (if mutex_initialized
                        then (vi\<lparr>mtx := True\<rparr>, tr @ [Acquire Mutex])
                        else (vi, tr));
                     vi = vi\<lparr>event_qsize := VIRTIO_INPUT_PACKET_SIZE, event_qindex := 0\<rparr>
                 in
                 if \<not> calloc_queue_ok env then init_fail mutex_initialized (Some vi) tr
                 else
                   let vi = vi\<lparr>event_queue :=
                              Some (replicate (unat (event_qsize vi)) zero_event_elem)\<rparr>;
                       tr = tr @ [Acquire Staging_buffer]
                   in
                   if \<not> mevent_add_ok env then init_fail mutex_initialized (Some vi) tr
                   else
                     let vi = vi\<lparr>mevp := Some (Mevent (fd vi))\<rparr>;
                         tr = tr @ [Acquire Event_registration];
                         vi = vi\<lparr>base := \<lparr>linked = True, base_mtx = True\<rparr>\<rparr>;
                         vi = vi\<lparr>queues := (queues vi)
                                [VIRTIO_INPUT_EVENT_QUEUE :=
                                   (queues vi ! VIRTIO_INPUT_EVENT_QUEUE)
                                     \<lparr>qsize := VIRTIO_INPUT_RINGSZ,
                                      notify := Some Notify_event_vq\<rparr>]\<rparr>;
                         vi = vi\<lparr>queues := (queues vi)
                                [VIRTIO_INPUT_STATUS_QUEUE :=
                                   (queues vi ! VIRTIO_INPUT_STATUS_QUEUE)
                                     \<lparr>qsize := VIRTIO_INPUT_RINGSZ,
                                      notify := Some Notify_status_vq\<rparr>]\<rparr>
                     in
                     if virtio_interrupt_init_rc env \<noteq> 0
                     then init_fail mutex_initialized (Some vi) tr
                     else (virtio_set_modern_bar_rc env, \<lparr>live = Some vi, calls = tr\<rparr>))"

text \<open>\<^verbatim>\<open>virtio_input_deinit\<close>: the body is the comment \<^verbatim>\<open>/* to be implemented */\<close>.\<close>

definition virtio_input_deinit :: "dm_state \<Rightarrow> string option \<Rightarrow> dm_state" where
  "virtio_input_deinit s opts = s"

text \<open>The order in which the label \<^verbatim>\<open>fail:\<close> releases what it finds acquired.\<close>

definition teardown_order :: "resource list" where
  "teardown_order =
    [Mutex, Staging_buffer, Event_registration, Host_fd, Serial_string, Path_string,
     Device_struct]"

text \<open>
  The failure points of \<^verbatim>\<open>virtio_input_init\<close> that lead to \<^verbatim>\<open>return -1\<close> or to the
  label \<^verbatim>\<open>fail:\<close>, read off its tests: a NULL option string, the allocation of the
  device struct, the copy of the path, the copy of the serial when one follows the comma,
  \<^verbatim>\<open>open\<close>, the two \<^verbatim>\<open>ioctl\<close> calls, the allocation of the staging buffer, the
  registration with the event loop and \<^verbatim>\<open>virtio_interrupt_init\<close>. A failing
  \<^verbatim>\<open>pthread_mutex_init\<close> is not one (the attach goes on), and the last call,
  \<^verbatim>\<open>virtio_set_modern_bar\<close>, is not tested.
\<close>

definition init_step_fails :: "host_env \<Rightarrow> string option \<Rightarrow> bool" where
  "init_step_fails env opts =
    (case opts of
      None \<Rightarrow> True
    | Some s \<Rightarrow>
        \<not> calloc_vi_ok env \<or> \<not> strdup_evdev_ok env \<or>
        (snd (strsep_comma (Some s)) \<noteq> None \<and> \<not> strdup_serial_ok env) \<or>
        host_open env (takeWhile (\<lambda>c. c \<noteq> CHR '','') s) < 0 \<or>
        ioctl_version_rc env < 0 \<or> ioctl_grab_rc env < 0 \<or>
        \<not> calloc_queue_ok env \<or> \<not> mevent_add_ok env \<or>
        virtio_interrupt_init_rc env \<noteq> 0)"

subsection \<open>Draining a batch\<close>




subsection \<open>A host and a device to evaluate on\<close>

text \<open>
  A host on which every call succeeds: \<^verbatim>\<open>open\<close> gives descriptor 3, except for the
  empty path, which no file has.
\<close>

definition host_ok :: host_env where
  "host_ok =
    \<lparr>calloc_vi_ok = True, strdup_evdev_ok = True, strdup_serial_ok = True,
     host_open = (\<lambda>p. if p = [] then - 1 else 3),
     ioctl_version_rc = 0, ioctl_grab_rc = 0, mutex_init_rc = 0,
     calloc_queue_ok = True, mevent_add_ok = True,
     virtio_interrupt_init_rc = 0, virtio_set_modern_bar_rc = 0\<rparr>"

text \<open>The same host, on which \<^verbatim>\<open>virtio_interrupt_init\<close> fails.\<close>

definition host_no_interrupt :: host_env where
  "host_no_interrupt = host_ok\<lparr>virtio_interrupt_init_rc := 1\<rparr>"

text \<open>The device a successful attach on that host leaves.\<close>

definition attached_device :: virtio_input where
  "attached_device =
    (case live (snd (virtio_input_init host_ok (Some ''/dev/input/event3,kbd0''))) of
      Some v \<Rightarrow> v
    | None \<Rightarrow> calloc_virtio_input)"

text \<open>
  That device with a batch of K = 2 events in the staging buffer, and J = 1 descriptor
  posted by the guest on the event queue.
\<close>

definition staged_device :: virtio_input where
  "staged_device =
    attached_device
      \<lparr>queues := (queues attached_device)
         [VIRTIO_INPUT_EVENT_QUEUE :=
            (queues attached_device ! VIRTIO_INPUT_EVENT_QUEUE)\<lparr>vq_avail := 1\<rparr>],
       event_queue := Some
         ([zero_event_elem\<lparr>event := \<lparr>ev_type = 1, ev_code = 30, ev_value = 1\<rparr>\<rparr>,
           zero_event_elem\<lparr>event := \<lparr>ev_type = 0, ev_code = 0, ev_value = 0\<rparr>\<rparr>]
          @ replicate 8 zero_event_elem),
       event_qindex := 2\<rparr>"

section \<open>Properties\<close>

subsection \<open>Traces and the failure label\<close>

lemma released_append: "released (xs @ ys) = released xs @ released ys"
  by (induction xs rule: released.induct) simp_all

lemma acquired_append: "acquired (xs @ ys) = acquired xs @ acquired ys"
  by (induction xs rule: acquired.induct) simp_all

text \<open>The label releases, in its fixed order, what the struct shows as acquired.\<close>

lemma init_fail_Some:
  "init_fail mi (Some v) tr =
    (- 1, \<lparr>live = None, calls = tr @
       (if mi then [Release Mutex] else []) @
       (if event_queue v \<noteq> None then [Release Staging_buffer] else []) @
       (if mevp v \<noteq> None then [Release Event_registration] else []) @
       (if fd v > 0 then [Release Host_fd] else []) @
       (if serial v \<noteq> None then [Release Serial_string] else []) @
       (if evdev v \<noteq> None then [Release Path_string] else []) @
       [Release Device_struct]\<rparr>)"
  by (simp add: init_fail_def Let_def)

text \<open>
  The two ways \<^verbatim>\<open>virtio_input_init\<close> ends when \<^verbatim>\<open>open\<close> does not return descriptor 0:
  a step fails, and it returns -1 with everything acquired released in the order of the
  label; or no step fails, and it goes past the last check with the return value of
  \<^verbatim>\<open>virtio_set_modern_bar\<close> and nothing released.
\<close>

lemma init_outcomes:
  assumes "\<forall>s. opts = Some s \<longrightarrow> host_open env (takeWhile (\<lambda>c. c \<noteq> CHR '','') s) \<noteq> 0"
  shows "(case virtio_input_init env opts of (rc, s) \<Rightarrow>
      (init_step_fails env opts \<and> rc = - 1 \<and> live s = None \<and>
       distinct (acquired (calls s)) \<and>
       released (calls s) = filter (\<lambda>r. r \<in> set (acquired (calls s))) teardown_order)
      \<or> (\<not> init_step_fails env opts \<and> rc = virtio_set_modern_bar_rc env \<and>
          live s \<noteq> None \<and> released (calls s) = []))"
proof (cases opts)
  case None
  then show ?thesis
    by (simp add: virtio_input_init_def teardown_order_def init_step_fails_def)
next
  case (Some s)
  with assms have "host_open env (takeWhile (\<lambda>c. c \<noteq> CHR '','') s) \<noteq> 0"
    by simp
  with Some show ?thesis
    unfolding virtio_input_init_def strsep_comma_def teardown_order_def init_step_fails_def
    by (simp add: Let_def init_fail_Some released_append acquired_append
        calloc_virtio_input_def split: list.split del: split_paired_All)
qed

text \<open>A device that survives the attach has the fields \<^verbatim>\<open>calloc\<close> zeroed.\<close>

lemma init_live_device:
  "(case live (snd (virtio_input_init env opts)) of
      None \<Rightarrow> True
    | Some v \<Rightarrow> features v = 0 \<and> cfg v = zero_config \<and> event_qindex v = 0 \<and>
        ready v = False \<and> 0 \<le> fd v \<and> mevp v = Some (Mevent (fd v)) \<and>
        event_queue v = Some (replicate 10 zero_event_elem))"
proof (cases opts)
  case None
  then show ?thesis by (simp add: virtio_input_init_def)
next
  case (Some s)
  then show ?thesis
    unfolding virtio_input_init_def strsep_comma_def
    by (simp add: Let_def init_fail_Some calloc_virtio_input_def
        VIRTIO_INPUT_PACKET_SIZE_def split: list.split del: split_paired_All)
qed

lemma init_live_fields:
  assumes "live (snd (virtio_input_init env opts)) = Some v"
  shows "features v = 0" and "cfg v = zero_config" and "event_qindex v = 0"
    and "0 \<le> fd v" and "mevp v = Some (Mevent (fd v))"
  using init_live_device [of env opts] assms by simp_all

subsection \<open>The attach evaluated\<close>

lemmas init_eval =
  virtio_input_init_def init_fail_def strsep_comma_def Let_def calloc_virtio_input_def
  host_ok_def host_no_interrupt_def
  VIRTIO_INPUT_PACKET_SIZE_def VIRTIO_INPUT_EVENT_QUEUE_def VIRTIO_INPUT_STATUS_QUEUE_def
  VIRTIO_INPUT_MAXQ_def VIRTIO_INPUT_RINGSZ_def

lemma replicate_two: "replicate 2 x = [x, x]"
  by (simp add: numeral_2_eq_2)

lemma init_host_no_interrupt:
  "virtio_input_init host_no_interrupt (Some ''/dev/input/event3,kbd0'') =
    (- 1, \<lparr>live = None, calls =
      [Acquire Device_struct, Acquire Path_string, Acquire Serial_string, Acquire Host_fd,
       Acquire Mutex, Acquire Staging_buffer, Acquire Event_registration,
       Release Mutex, Release Staging_buffer, Release Event_registration, Release Host_fd,
       Release Serial_string, Release Path_string, Release Device_struct]\<rparr>)"
  by (simp add: init_eval)

lemma attached_device_eq:
  "attached_device =
    \<lparr>base = \<lparr>linked = True, base_mtx = True\<rparr>,
     queues =
       [\<lparr>qsize = 64, notify = Some Notify_event_vq, vq_avail = 0, vq_used = [], vq_intr = 0\<rparr>,
        \<lparr>qsize = 64, notify = Some Notify_status_vq, vq_avail = 0, vq_used = [], vq_intr = 0\<rparr>],
     mtx = True, mevp = Some (Mevent 3), features = 0, cfg = zero_config,
     evdev = Some ''/dev/input/event3'', serial = Some ''kbd0'', fd = 3, ready = False,
     event_queue = Some (replicate 10 zero_event_elem), event_qsize = 10, event_qindex = 0\<rparr>"
  by (simp add: attached_device_def init_eval zero_vq_info_def replicate_two)

lemma attach_host_ok_live:
  "live (snd (virtio_input_init host_ok (Some ''/dev/input/event3,kbd0''))) = Some attached_device"
  by (simp add: attached_device_eq init_eval zero_vq_info_def replicate_two)

lemma staged_device_eq:
  "staged_device =
    attached_device
     \<lparr>queues :=
       [\<lparr>qsize = 64, notify = Some Notify_event_vq, vq_avail = 1, vq_used = [], vq_intr = 0\<rparr>,
        \<lparr>qsize = 64, notify = Some Notify_status_vq, vq_avail = 0, vq_used = [], vq_intr = 0\<rparr>],
      event_queue := Some
         ([zero_event_elem\<lparr>event := \<lparr>ev_type = 1, ev_code = 30, ev_value = 1\<rparr>\<rparr>,
           zero_event_elem\<lparr>event := \<lparr>ev_type = 0, ev_code = 0, ev_value = 0\<rparr>\<rparr>]
          @ replicate 8 zero_event_elem),
      event_qindex := 2\<rparr>"
  by (simp add: staged_device_def attached_device_eq VIRTIO_INPUT_EVENT_QUEUE_def)

text \<open>
  Two exits of the attach that the teardown does not cover. When
  \<^verbatim>\<open>virtio_set_modern_bar\<close> fails, its error is returned with the device left as
  built and nothing released.
\<close>

lemma init_modern_bar_failure:
  "fst (virtio_input_init (host_ok\<lparr>virtio_set_modern_bar_rc := - 1\<rparr>)
      (Some ''/dev/input/event3,kbd0'')) = - 1 \<and>
   live (snd (virtio_input_init (host_ok\<lparr>virtio_set_modern_bar_rc := - 1\<rparr>)
      (Some ''/dev/input/event3,kbd0''))) = Some attached_device \<and>
   released (calls (snd (virtio_input_init (host_ok\<lparr>virtio_set_modern_bar_rc := - 1\<rparr>)
      (Some ''/dev/input/event3,kbd0'')))) = []"
  by (simp add: attached_device_eq init_eval zero_vq_info_def replicate_two)

text \<open>
  When \<^verbatim>\<open>open\<close> returns descriptor 0, the test \<^verbatim>\<open>vi->fd > 0\<close> of the label skips the
  \<^verbatim>\<open>close\<close>.
\<close>

lemma init_descriptor_zero_left_open:
  "virtio_input_init (host_no_interrupt\<lparr>host_open := (\<lambda>p. 0)\<rparr>) (Some ''/dev/input/event3'') =
    (- 1, \<lparr>live = None, calls =
      [Acquire Device_struct, Acquire Path_string, Acquire Host_fd,
       Acquire Mutex, Acquire Staging_buffer, Acquire Event_registration,
       Release Mutex, Release Staging_buffer, Release Event_registration,
       Release Path_string, Release Device_struct]\<rparr>)"
  by (simp add: init_eval)

subsection \<open>Attach: teardown on failure\<close>

text \<open>
  Claim C1, as the code has it. Take any host on which \<^verbatim>\<open>open\<close> does not return
  descriptor 0. At every failure point of the attach (a NULL option string, the
  allocation of the device struct, either string copy, \<^verbatim>\<open>open\<close>, either \<^verbatim>\<open>ioctl\<close>,
  the allocation of the staging buffer, the event-loop registration,
  \<^verbatim>\<open>virtio_interrupt_init\<close>) it returns -1, the device struct is freed, no resource was
  acquired twice, and the resources released are exactly those acquired, each once, in
  the fixed order of the label: mutex, staging buffer, event-loop registration, host
  descriptor, serial string, path string, device struct. Conversely, when
  \<^verbatim>\<open>virtio_set_modern_bar\<close> succeeds, the attach returns an error only at one of these
  failure points.
\<close>

theorem init_failure_teardown:
  assumes "virtio_input_init env opts = (rc, s)"
    and "\<forall>s. opts = Some s \<longrightarrow> host_open env (takeWhile (\<lambda>c. c \<noteq> CHR '','') s) \<noteq> 0"
  shows "(init_step_fails env opts \<longrightarrow>
      rc = - 1 \<and> live s = None \<and> distinct (acquired (calls s)) \<and>
      released (calls s) = filter (\<lambda>r. r \<in> set (acquired (calls s))) teardown_order) \<and>
    (rc \<noteq> 0 \<and> virtio_set_modern_bar_rc env = 0 \<longrightarrow> init_step_fails env opts)"
proof -
  from init_outcomes [OF assms(2)] assms(1)
  have "(init_step_fails env opts \<and> rc = - 1 \<and> live s = None \<and>
       distinct (acquired (calls s)) \<and>
       released (calls s) = filter (\<lambda>r. r \<in> set (acquired (calls s))) teardown_order)
      \<or> (\<not> init_step_fails env opts \<and> rc = virtio_set_modern_bar_rc env \<and>
          live s \<noteq> None \<and> released (calls s) = [])"
    by simp
  then show ?thesis by auto
qed

text \<open>On the host where \<^verbatim>\<open>virtio_interrupt_init\<close> fails, with everything acquired.\<close>

theorem init_failure_teardown_witness:
  "init_step_fails host_no_interrupt (Some ''/dev/input/event3,kbd0'') \<and>
   virtio_set_modern_bar_rc host_no_interrupt = 0 \<and>
   fst (virtio_input_init host_no_interrupt (Some ''/dev/input/event3,kbd0'')) = - 1 \<and>
   live (snd (virtio_input_init host_no_interrupt (Some ''/dev/input/event3,kbd0''))) = None \<and>
   released (calls (snd (virtio_input_init host_no_interrupt (Some ''/dev/input/event3,kbd0''))))
     = teardown_order"
proof -
  let ?r = "virtio_input_init host_no_interrupt (Some ''/dev/input/event3,kbd0'')"
  have r: "?r = (fst ?r, snd ?r)" by simp
  have fails: "init_step_fails host_no_interrupt (Some ''/dev/input/event3,kbd0'')"
    by (simp add: init_step_fails_def host_no_interrupt_def host_ok_def)
  have bar: "virtio_set_modern_bar_rc host_no_interrupt = 0"
    by (simp add: host_no_interrupt_def host_ok_def)
  have fds: "\<forall>s. Some ''/dev/input/event3,kbd0'' = Some s \<longrightarrow>
      host_open host_no_interrupt (takeWhile (\<lambda>c. c \<noteq> CHR '','') s) \<noteq> 0"
    by (simp add: host_no_interrupt_def host_ok_def)
  from init_failure_teardown [OF r fds] fails
  have "fst ?r = - 1 \<and> live (snd ?r) = None \<and>
    released (calls (snd ?r)) =
      filter (\<lambda>r. r \<in> set (acquired (calls (snd ?r)))) teardown_order"
    by blast
  with fails bar show ?thesis
    by (simp add: init_host_no_interrupt teardown_order_def)
qed

text \<open>
  The release order is not the reverse of the acquisition order: on that host the mutex
  goes first and the event-loop registration third.
\<close>

theorem init_reverse_order_counterexample:
  "released (calls (snd (virtio_input_init host_no_interrupt (Some ''/dev/input/event3,kbd0''))))
     = [Mutex, Staging_buffer, Event_registration, Host_fd, Serial_string, Path_string,
        Device_struct] \<and>
   rev (acquired (calls (snd (virtio_input_init host_no_interrupt (Some ''/dev/input/event3,kbd0'')))))
     = [Event_registration, Staging_buffer, Mutex, Host_fd, Serial_string, Path_string,
        Device_struct] \<and>
   released (calls (snd (virtio_input_init host_no_interrupt (Some ''/dev/input/event3,kbd0''))))
     \<noteq> rev (acquired (calls (snd (virtio_input_init host_no_interrupt
           (Some ''/dev/input/event3,kbd0'')))))"
  by (simp add: init_host_no_interrupt)

subsection \<open>Attach: the source specification\<close>

text \<open>
  Claim C8. With a NULL option string, or one with no device path before the first
  comma, the attach returns -1 and leaves no device. For the NULL string nothing is
  allocated. The empty path is not caught by the test of \<^verbatim>\<open>strsep\<close>'s result (it is the
  empty string, not NULL): it reaches \<^verbatim>\<open>open\<close>, which fails on an empty path on every
  POSIX host; the theorem takes that failure as its hypothesis on the host.
\<close>

theorem init_rejects_bad_specification:
  assumes "opts = None \<or>
    (\<exists>s. opts = Some s \<and> takeWhile (\<lambda>c. c \<noteq> CHR '','') s = [] \<and> host_open env [] < 0)"
  shows "fst (virtio_input_init env opts) = - 1 \<and>
    live (snd (virtio_input_init env opts)) = None"
proof (cases opts)
  case None
  then show ?thesis by (simp add: virtio_input_init_def)
next
  case (Some s)
  with assms have "takeWhile (\<lambda>c. c \<noteq> CHR '','') s = []" and "host_open env [] < 0"
    by simp_all
  with Some show ?thesis
    unfolding virtio_input_init_def strsep_comma_def
    by (simp add: Let_def init_fail_Some calloc_virtio_input_def
        split: list.split del: split_paired_All)
qed

theorem init_rejects_bad_specification_witness:
  "fst (virtio_input_init host_ok None) = - 1 \<and>
   live (snd (virtio_input_init host_ok None)) = None \<and>
   calls (snd (virtio_input_init host_ok None)) = [] \<and>
   takeWhile (\<lambda>c. c \<noteq> CHR '','') '',kbd0'' = [] \<and>
   host_open host_ok [] < 0 \<and>
   fst (virtio_input_init host_ok (Some '',kbd0'')) = - 1 \<and>
   live (snd (virtio_input_init host_ok (Some '',kbd0''))) = None"
proof -
  have a: "(None :: string option) = None \<or>
    (\<exists>s. (None :: string option) = Some s \<and> takeWhile (\<lambda>c. c \<noteq> CHR '','') s = [] \<and>
      host_open host_ok [] < 0)"
    by simp
  have b: "Some '',kbd0'' = None \<or>
    (\<exists>s. Some '',kbd0'' = Some s \<and> takeWhile (\<lambda>c. c \<noteq> CHR '','') s = [] \<and>
      host_open host_ok [] < 0)"
    by (simp add: host_ok_def)
  have c: "calls (snd (virtio_input_init host_ok None)) = []"
    by (simp add: virtio_input_init_def)
  have d: "takeWhile (\<lambda>c. c \<noteq> CHR '','') '',kbd0'' = [] \<and> host_open host_ok [] < 0"
    by (simp add: host_ok_def)
  from init_rejects_bad_specification [OF a] init_rejects_bad_specification [OF b] c d
  show ?thesis by simp
qed

subsection \<open>Feature negotiation\<close>

text \<open>
  Claim C2, as the code has it. For every proposed mask, \<^verbatim>\<open>virtio_input_neg_features\<close>
  stores nothing and has no error path: the device is unchanged. On a device as the
  attach leaves it the features field is 0 before and after, which lies within the
  offered mask and does not hold the version-marker bit. The offered mask
  \<^verbatim>\<open>VIRTIO_INPUT_S_HOSTCAPS\<close> is the version-marker bit alone.
\<close>

theorem neg_features_stores_nothing:
  assumes "live (snd (virtio_input_init env opts)) = Some v"
  shows "virtio_input_neg_features vdev x = vdev \<and>
    features (virtio_input_neg_features v x) = 0 \<and>
    features (virtio_input_neg_features v x) AND NOT VIRTIO_INPUT_S_HOSTCAPS = 0 \<and>
    VIRTIO_INPUT_S_HOSTCAPS = VIRTIO_F_VERSION_1"
  using init_live_fields(1) [OF assms]
  by (simp add: virtio_input_neg_features_def VIRTIO_INPUT_S_HOSTCAPS_def)

theorem neg_features_stores_nothing_witness:
  "live (snd (virtio_input_init host_ok (Some ''/dev/input/event3,kbd0''))) = Some attached_device \<and>
   virtio_input_neg_features attached_device VIRTIO_F_VERSION_1 = attached_device \<and>
   features (virtio_input_neg_features attached_device VIRTIO_F_VERSION_1) = 0"
proof -
  note th = neg_features_stores_nothing
    [OF attach_host_ok_live, of attached_device VIRTIO_F_VERSION_1]
  from th have a: "virtio_input_neg_features attached_device VIRTIO_F_VERSION_1 = attached_device"
    by (rule conjunct1)
  from th have b: "features (virtio_input_neg_features attached_device VIRTIO_F_VERSION_1) = 0"
    by (elim conjE)
  from attach_host_ok_live a b show ?thesis by (intro conjI)
qed

text \<open>
  The guest proposes the version-marker bit to the attached device: the features stored
  afterwards do not hold it.
\<close>

theorem neg_features_version_bit_counterexample:
  "features (virtio_input_neg_features attached_device VIRTIO_F_VERSION_1) AND VIRTIO_F_VERSION_1
     \<noteq> VIRTIO_F_VERSION_1"
  by (simp add: virtio_input_neg_features_def attached_device_eq VIRTIO_F_VERSION_1_def)

subsection \<open>Reset\<close>

text \<open>
  Claim C3, as the code has it. \<^verbatim>\<open>virtio_input_reset\<close> changes no field of any device,
  and a configuration read after it returns 0 without writing the output value. So the
  host descriptor and the event-loop registration stay as they were; on a device as the
  attach leaves it, the features are 0, the write cursor of the staging buffer is 0 and
  the selector is unset, after the reset as before it.
\<close>

theorem reset_changes_nothing:
  assumes "live (snd (virtio_input_init env opts)) = Some v"
  shows "virtio_input_reset vdev = vdev \<and>
    virtio_input_cfgread (virtio_input_reset vdev) offset sz retval = (0, vdev, retval) \<and>
    fd (virtio_input_reset v) = fd v \<and>
    mevp (virtio_input_reset v) = mevp v \<and>
    features (virtio_input_reset v) = 0 \<and>
    event_qindex (virtio_input_reset v) = 0 \<and>
    cfg_select (cfg (virtio_input_reset v)) = VIRTIO_INPUT_CFG_UNSET"
  using init_live_fields(1,2,3) [OF assms]
  by (simp add: virtio_input_reset_def virtio_input_cfgread_def zero_config_def
      VIRTIO_INPUT_CFG_UNSET_def)

theorem reset_changes_nothing_witness:
  "live (snd (virtio_input_init host_ok (Some ''/dev/input/event3,kbd0''))) = Some attached_device \<and>
   virtio_input_reset staged_device = staged_device \<and>
   virtio_input_cfgread (virtio_input_reset staged_device) 2 1 0xFF = (0, staged_device, 0xFF) \<and>
   fd (virtio_input_reset attached_device) = 3 \<and>
   mevp (virtio_input_reset attached_device) = Some (Mevent 3) \<and>
   features (virtio_input_reset attached_device) = 0"
proof -
  note th = reset_changes_nothing [OF attach_host_ok_live, of staged_device 2 1 "0xFF"]
  have f: "fd attached_device = 3" and m: "mevp attached_device = Some (Mevent 3)"
    by (simp_all add: attached_device_eq)
  from th f m attach_host_ok_live show ?thesis by (elim conjE) simp
qed

text \<open>
  After a reset, a one-byte read of the size register (offset 2) into a value preset to
  0xFF leaves 0xFF there, not the size 0; a staging buffer with two events keeps its
  cursor at 2; a features field holding the version-marker bit keeps it.
\<close>

theorem reset_counterexample:
  "snd (snd (virtio_input_cfgread (virtio_input_reset attached_device) 2 1 0xFF)) \<noteq> 0 \<and>
   event_qindex (virtio_input_reset staged_device) \<noteq> 0 \<and>
   features (virtio_input_reset (attached_device\<lparr>features := VIRTIO_F_VERSION_1\<rparr>)) \<noteq> 0"
  by (simp add: virtio_input_reset_def virtio_input_cfgread_def staged_device_eq
      VIRTIO_F_VERSION_1_def)

subsection \<open>Configuration space\<close>

text \<open>
  Claim C4, as the code has it. On a device as the attach leaves it, with any selector
  and sub-selector in its register block (supported or not, or unset), a configuration
  read never signals an error: it returns 0. It computes nothing and delivers nothing:
  the output value is the one passed in, and the register block keeps the selector pair,
  the stored size 0 and the all-zero 128-byte payload.
\<close>

theorem cfgread_delivers_nothing:
  assumes "live (snd (virtio_input_init env opts)) = Some v"
    and "virtio_input_cfgread (v\<lparr>cfg := (cfg v)\<lparr>cfg_select := sel, cfg_subsel := sub\<rparr>\<rparr>)
           offset sz retval = (rc, v', retval')"
  shows "rc = 0 \<and> retval' = retval \<and>
    cfg_select (cfg v') = sel \<and> cfg_subsel (cfg v') = sub \<and>
    cfg_size (cfg v') = 0 \<and> cfg_u (cfg v') = replicate 128 0"
proof -
  from assms(2) have "rc = 0" and "retval' = retval"
    and v': "v' = v\<lparr>cfg := (cfg v)\<lparr>cfg_select := sel, cfg_subsel := sub\<rparr>\<rparr>"
    by (simp_all add: virtio_input_cfgread_def)
  moreover from init_live_fields(2) [OF assms(1)]
  have "cfg_size (cfg v) = 0" and "cfg_u (cfg v) = replicate 128 0"
    by (simp_all add: zero_config_def)
  ultimately show ?thesis by simp
qed

theorem cfgread_delivers_nothing_witness:
  "live (snd (virtio_input_init host_ok (Some ''/dev/input/event3,kbd0''))) = Some attached_device \<and>
   virtio_input_cfgread
      (attached_device\<lparr>cfg := (cfg attached_device)
         \<lparr>cfg_select := VIRTIO_INPUT_CFG_ABS_INFO, cfg_subsel := 0x3F\<rparr>\<rparr>) 2 1 0xFF
     = (0, attached_device\<lparr>cfg := (cfg attached_device)
         \<lparr>cfg_select := VIRTIO_INPUT_CFG_ABS_INFO, cfg_subsel := 0x3F\<rparr>\<rparr>, 0xFF) \<and>
   cfg_size (cfg attached_device) = 0"
proof -
  let ?d = "attached_device\<lparr>cfg := (cfg attached_device)
         \<lparr>cfg_select := VIRTIO_INPUT_CFG_ABS_INFO, cfg_subsel := 0x3F\<rparr>\<rparr>"
  have r: "virtio_input_cfgread ?d 2 1 0xFF = (0, ?d, 0xFF)"
    by (simp add: virtio_input_cfgread_def)
  from cfgread_delivers_nothing [OF attach_host_ok_live r] attach_host_ok_live r
  show ?thesis by simp
qed

text \<open>
  The attached device has its selector unset. A one-byte read of the size register
  (offset 2) into a value preset to 0xFF yields 0xFF, not 0.
\<close>

theorem cfgread_size_counterexample:
  "cfg_select (cfg attached_device) = VIRTIO_INPUT_CFG_UNSET \<and>
   snd (snd (virtio_input_cfgread attached_device 2 1 0xFF)) = 0xFF \<and>
   snd (snd (virtio_input_cfgread attached_device 2 1 0xFF)) \<noteq> 0"
  by (simp add: virtio_input_cfgread_def attached_device_eq zero_config_def
      VIRTIO_INPUT_CFG_UNSET_def)

text \<open>
  Claim C5, as the code has it. A configuration write, to the select or subsel register
  or anywhere else, returns 0 and stores nothing: the register block (selector,
  sub-selector, size, payload) is what it was, and no payload is computed.
\<close>

theorem cfgwrite_stores_nothing:
  "fst (virtio_input_cfgwrite vdev offset sz val) = 0 \<and>
   cfg (snd (virtio_input_cfgwrite vdev offset sz val)) = cfg vdev"
  by (simp add: virtio_input_cfgwrite_def)

text \<open>
  Writing 1 (id-name) to the select register at offset 0 leaves the selector unset;
  writing 0x3F to the subsel register at offset 1 leaves the sub-selector 0.
\<close>

theorem cfgwrite_select_counterexample:
  "cfg_select (cfg (snd (virtio_input_cfgwrite attached_device 0 1 1))) = VIRTIO_INPUT_CFG_UNSET \<and>
   cfg_select (cfg (snd (virtio_input_cfgwrite attached_device 0 1 1)))
     \<noteq> VIRTIO_INPUT_CFG_ID_NAME \<and>
   cfg_subsel (cfg (snd (virtio_input_cfgwrite attached_device 1 1 0x3F))) \<noteq> 0x3F"
  by (simp add: virtio_input_cfgwrite_def attached_device_eq zero_config_def
      VIRTIO_INPUT_CFG_UNSET_def VIRTIO_INPUT_CFG_ID_NAME_def)

text \<open>
  Claim C10. For every offset, access size and device state, the configuration read
  returns status 0 and hands back the output value it was given, with the device as it
  was; the configuration write returns 0 with the device as it was.
\<close>

theorem cfg_dispatch_handled:
  "virtio_input_cfgread vdev offset sz retval = (0, vdev, retval) \<and>
   virtio_input_cfgwrite vdev offset sz val = (0, vdev)"
  by (simp add: virtio_input_cfgread_def virtio_input_cfgwrite_def)

subsection \<open>The event queue\<close>

text \<open>
  The source itself drains nothing: the readiness callback \<^verbatim>\<open>virtio_input_read_event\<close>
  and the notify handler of the event queue leave the device, its staging buffer and its
  queues as they were.
\<close>

lemma event_path_drains_nothing:
  "virtio_input_read_event fdesc t vdev = vdev \<and>
   vdev_of (virtio_input_notify_event_vq
      (w\<lparr>vdev_of := virtio_input_read_event fdesc t vdev\<rparr>) vq) = vdev"
  by (simp add: virtio_input_read_event_def virtio_input_notify_event_vq_def DPRINTF_def)




text \<open>
  Claim C9. The notify handler of the event queue leaves the device instance as it was,
  for every state and every queue: no field changes, so nothing dropped is retried. The
  debug flag is unchanged too; only the console can grow.
\<close>

theorem notify_event_vq_keeps_device:
  "vdev_of (virtio_input_notify_event_vq w vq) = vdev_of w \<and>
   virtio_input_debug (virtio_input_notify_event_vq w vq) = virtio_input_debug w"
  by (simp add: virtio_input_notify_event_vq_def DPRINTF_def)

subsection \<open>Detach\<close>

text \<open>
  Claim C7. \<^verbatim>\<open>virtio_input_deinit\<close> is idempotent: a second call gives the state of the
  first, a call on any state (a closed device included) changes nothing, and after two
  calls the resources released are those released before, so none is freed or closed
  twice.
\<close>

theorem deinit_idempotent:
  "virtio_input_deinit (virtio_input_deinit s opts) opts = virtio_input_deinit s opts \<and>
   virtio_input_deinit s opts = s \<and>
   released (calls (virtio_input_deinit (virtio_input_deinit s opts) opts)) = released (calls s)"
  by (simp add: virtio_input_deinit_def)

end
